theory Spec2Isabelle
  imports Complex_Main
begin

section \<open>Python values\<close>

text \<open>
  The program is Python. Its \<open>str\<close> is a sequence of Unicode code points and \<open>len\<close>
  counts code points, so a string is modelled as the list of its code points. Its
  \<open>int\<close> is unbounded (\<open>int\<close> here) and its \<open>float\<close> is an IEEE-754 binary64
  number.
\<close>

type_synonym codepoint = nat
type_synonym pystr = "codepoint list"

definition py :: "string \<Rightarrow> pystr" where
  "py s = map of_char s"

subsection \<open>Binary64 arithmetic\<close>

text \<open>
  A finite double is modelled by its exact rational value. An arithmetic operation
  computes the exact result and rounds it to 53 significant bits, ties to even, as
  IEEE-754 prescribes for \<open>*\<close> and \<open>/\<close> and as CPython does for \<open>float(int)\<close>
  and for \<open>int / int\<close>. Overflow to infinity (an \<open>OverflowError\<close> in \<open>float(int)\<close>
  beyond \<open>2 ^ 1024\<close>) and subnormal numbers (below \<open>2 ^ -1022\<close>) are outside the
  model; the program never approaches either range.
\<close>

function bit_length :: "int \<Rightarrow> nat" where
  \<comment> \<open>\<open>n.bit_length()\<close> of a non-negative int\<close>
  "bit_length n = (if n \<le> 0 then 0 else Suc (bit_length (n div 2)))"
  by pat_completeness auto
termination
  by (relation "measure nat") auto

declare bit_length.simps [simp del]

definition pow2 :: "int \<Rightarrow> rat" where
  "pow2 e = (if 0 \<le> e then 2 ^ nat e else 1 / 2 ^ nat (- e))"

definition ilog2 :: "rat \<Rightarrow> int" where
  \<comment> \<open>the binary exponent \<open>\<lfloor>log\<^sub>2 x\<rfloor>\<close> of a positive \<open>x\<close>\<close>
  "ilog2 x = (case quotient_of x of (a, b) \<Rightarrow>
     let g = int (bit_length a) - int (bit_length b)
     in if pow2 g \<le> x then g else g - 1)"

definition round_pos :: "rat \<Rightarrow> rat" where
  \<comment> \<open>round a positive value to a 53-bit significand, ties to even\<close>
  "round_pos x =
     (let e = ilog2 x - 52;
          m = x / pow2 e;
          q = \<lfloor>m\<rfloor>;
          r = m - of_int q;
          q' = (if 1 / 2 < r \<or> (r = 1 / 2 \<and> odd q) then q + 1 else q)
      in of_int q' * pow2 e)"

definition round53 :: "rat \<Rightarrow> rat" where
  "round53 x = (if x = 0 then 0 else if x < 0 then - round_pos (- x) else round_pos x)"

definition float_of_int :: "int \<Rightarrow> rat" where
  "float_of_int n = round53 (of_int n)"

definition float_mul :: "rat \<Rightarrow> rat \<Rightarrow> rat" where
  "float_mul x y = round53 (x * y)"

definition float_div :: "rat \<Rightarrow> rat \<Rightarrow> rat" where
  "float_div x y = round53 (x / y)"

definition int_truediv :: "int \<Rightarrow> int \<Rightarrow> rat" where
  \<comment> \<open>\<open>a / b\<close> on two ints: the correctly rounded quotient\<close>
  "int_truediv a b = round53 (of_int a / of_int b)"

definition py_int :: "rat \<Rightarrow> int" where
  \<comment> \<open>\<open>int(x)\<close> on a float truncates towards zero\<close>
  "py_int x = (if 0 \<le> x then \<lfloor>x\<rfloor> else \<lceil>x\<rceil>)"

definition lit_1_3 :: rat where
  \<comment> \<open>the float literal \<open>1.3\<close>\<close>
  "lit_1_3 = round53 (13 / 10)"

definition lit_0_5 :: rat where
  "lit_0_5 = round53 (1 / 2)"

subsection \<open>String operations\<close>

definition whitespace_codepoints :: "codepoint list" where
  \<comment> \<open>the code points for which \<open>str.isspace\<close> holds; \<open>\\s\<close> in a \<open>str\<close> pattern,
      \<open>str.strip()\<close> and \<open>str.split()\<close> all use this set\<close>
  "whitespace_codepoints =
     [9, 10, 11, 12, 13, 28, 29, 30, 31, 32, 133, 160, 5760,
      8192, 8193, 8194, 8195, 8196, 8197, 8198, 8199, 8200, 8201, 8202,
      8232, 8233, 8239, 8287, 12288]"

definition isspace :: "codepoint \<Rightarrow> bool" where
  "isspace c = (c \<in> set whitespace_codepoints)"

definition strip :: "pystr \<Rightarrow> pystr" where
  \<comment> \<open>\<open>s.strip()\<close>\<close>
  "strip s = rev (dropWhile isspace (rev (dropWhile isspace s)))"

fun split_words :: "pystr \<Rightarrow> pystr \<Rightarrow> pystr list" where
  \<comment> \<open>\<open>s.split()\<close>: the maximal runs of non-whitespace; the first argument is the
      word being read, reversed\<close>
  "split_words w [] = (if w = [] then [] else [rev w])"
| "split_words w (c # cs) =
     (if isspace c then (if w = [] then split_words [] cs else rev w # split_words [] cs)
      else split_words (c # w) cs)"

definition split :: "pystr \<Rightarrow> pystr list" where
  "split s = split_words [] s"

fun join :: "pystr \<Rightarrow> pystr list \<Rightarrow> pystr" where
  \<comment> \<open>\<open>sep.join(xs)\<close>\<close>
  "join sep [] = []"
| "join sep [x] = x"
| "join sep (x # y # ys) = x @ sep @ join sep (y # ys)"

definition newline :: codepoint where
  "newline = 10"

definition blank_line_rest :: "pystr \<Rightarrow> pystr option" where
  \<comment> \<open>the text after a first \<open>\\n\<close>: does \<open>\\s*\\n\<close> match here, and what is left after the
      match. The greedy \<open>\\s*\<close> takes the whole whitespace run and backtracks to the last
      \<open>\\n\<close> in it.\<close>
  "blank_line_rest cs =
     (let w = takeWhile isspace cs
      in if newline \<in> set w
         then Some (rev (takeWhile (\<lambda>c. c \<noteq> newline) (rev w)) @ dropWhile isspace cs)
         else None)"

lemma blank_line_rest_length:
  "blank_line_rest cs = Some rest \<Longrightarrow> length rest \<le> length cs"
proof -
  assume a: "blank_line_rest cs = Some rest"
  let ?w = "takeWhile isspace cs"
  have "rest = rev (takeWhile (\<lambda>c. c \<noteq> newline) (rev ?w)) @ dropWhile isspace cs"
    using a by (simp add: blank_line_rest_def Let_def split: if_splits)
  moreover have "length (takeWhile (\<lambda>c. c \<noteq> newline) (rev ?w)) \<le> length ?w"
    using length_takeWhile_le [of "\<lambda>c. c \<noteq> newline" "rev ?w"] by simp
  moreover have "length ?w + length (dropWhile isspace cs) = length cs"
    using takeWhile_dropWhile_id [of isspace cs] length_append [of ?w "dropWhile isspace cs"]
    by simp
  ultimately show ?thesis by simp
qed

function split_blank_lines :: "pystr \<Rightarrow> pystr \<Rightarrow> pystr list" where
  \<comment> \<open>\<open>re.split(r'\\n\\s*\\n', text)\<close>; the first argument is the piece being read,
      reversed\<close>
  "split_blank_lines acc [] = [rev acc]"
| "split_blank_lines acc (c # cs) =
     (if c = newline then
        (case blank_line_rest cs of
           Some rest \<Rightarrow> rev acc # split_blank_lines [] rest
         | None \<Rightarrow> split_blank_lines (c # acc) cs)
      else split_blank_lines (c # acc) cs)"
  by pat_completeness auto
termination
  by (relation "measure (\<lambda>(acc, cs). length cs)")
     (auto simp: less_Suc_eq_le dest: blank_line_rest_length)

definition is_terminator :: "codepoint \<Rightarrow> bool" where
  \<comment> \<open>the character class \<open>[.!?]\<close>\<close>
  "is_terminator c = (c = 46 \<or> c = 33 \<or> c = 63)"

function split_sentences :: "pystr \<Rightarrow> pystr \<Rightarrow> pystr list" where
  \<comment> \<open>\<open>re.split(r'[.!?]+', text)\<close>; the first argument is the piece being read,
      reversed\<close>
  "split_sentences acc [] = [rev acc]"
| "split_sentences acc (c # cs) =
     (if is_terminator c then rev acc # split_sentences [] (dropWhile is_terminator cs)
      else split_sentences (c # acc) cs)"
  by pat_completeness auto
termination
  by (relation "measure (\<lambda>(acc, cs). length cs)")
     (auto simp: length_dropWhile_le less_Suc_eq_le)

section \<open>pdf_processor.py: token estimation\<close>

definition count_words :: "pystr \<Rightarrow> int" where
  "count_words text = int (length (split text))"

definition estimate_tokens :: "pystr \<Rightarrow> int" where
  "estimate_tokens text =
     (let word_count = count_words text
      in py_int (float_mul (float_of_int word_count) lit_1_3))"

definition estimate_words_from_tokens :: "int \<Rightarrow> int" where
  "estimate_words_from_tokens tokens = py_int (float_div (float_of_int tokens) lit_1_3)"

section \<open>summarizer.py: chunking\<close>

record packer =
  chunks :: "pystr list"
  current_chunk :: "pystr list"
  current_tokens :: int

definition max_chunk_tokens :: int where
  "max_chunk_tokens = 8000"

definition pack_step :: "packer \<Rightarrow> pystr \<Rightarrow> packer" where
  \<comment> \<open>the body of \<open>for paragraph in paragraphs\<close>\<close>
  "pack_step s paragraph =
     (let paragraph_tokens = estimate_tokens paragraph
      in if current_tokens s + paragraph_tokens > max_chunk_tokens \<and> current_chunk s \<noteq> []
         then \<lparr>chunks = chunks s @ [join (py ''\<newline>\<newline>'') (current_chunk s)],
               current_chunk = [paragraph],
               current_tokens = paragraph_tokens\<rparr>
         else \<lparr>chunks = chunks s,
               current_chunk = current_chunk s @ [paragraph],
               current_tokens = current_tokens s + paragraph_tokens\<rparr>)"

fun pack_loop :: "packer \<Rightarrow> pystr list \<Rightarrow> packer" where
  "pack_loop s [] = s"
| "pack_loop s (paragraph # rest) = pack_loop (pack_step s paragraph) rest"

definition stripped_nonempty :: "pystr list \<Rightarrow> pystr list" where
  \<comment> \<open>\<open>[p.strip() for p in pieces if p.strip()]\<close>\<close>
  "stripped_nonempty pieces = map strip (filter (\<lambda>p. strip p \<noteq> []) pieces)"

definition semantic_units :: "pystr \<Rightarrow> pystr list" where
  \<comment> \<open>the value of \<open>paragraphs\<close> when the loop starts\<close>
  "semantic_units text =
     (let paragraphs = stripped_nonempty (split_blank_lines [] text)
      in if length paragraphs \<le> 2 \<and> length text > 500
         then stripped_nonempty (split_sentences [] text)
         else paragraphs)"

definition flush :: "packer \<Rightarrow> pystr list" where
  \<comment> \<open>\<open>if current_chunk: chunks.append(...)\<close>, then \<open>return chunks\<close>\<close>
  "flush s =
     (if current_chunk s \<noteq> []
      then chunks s @ [join (py ''\<newline>\<newline>'') (current_chunk s)]
      else chunks s)"

definition create_intelligent_chunks :: "pystr \<Rightarrow> pystr list" where
  "create_intelligent_chunks text =
     flush (pack_loop \<lparr>chunks = [], current_chunk = [], current_tokens = 0\<rparr>
              (semantic_units text))"

section \<open>summarizer.py: the worker\<close>

text \<open>
  The worker talks to the outside through three Qt signals and through the completion
  service (\<open>self.client.run\<close>). A run is modelled by the list of its effects in the
  order they happen: every signal emitted and every request sent. The service is a
  parameter: given how many requests came before and the request, it returns an iterable
  of strings or raises an exception whose \<open>str(e)\<close> is the given message.
\<close>

record request =
  model :: pystr
  prompt :: pystr
  system_prompt :: pystr
  temperature :: rat
  top_p :: rat
  max_completion_tokens :: int
  presence_penalty :: int
  frequency_penalty :: rat

datatype response = Raises pystr | Returns "pystr list"

type_synonym service = "nat \<Rightarrow> request \<Rightarrow> response"

datatype effect = Progress int | Finished pystr | Error pystr | Call request

fun is_call :: "effect \<Rightarrow> bool" where
  "is_call (Call r) = True"
| "is_call e = False"

definition GPT_NANO_MODEL :: pystr where
  "GPT_NANO_MODEL = py ''openai/gpt-4.1-nano''"

definition REPLICATE_API_TOKEN_default :: pystr where
  \<comment> \<open>config.py: the value of \<open>REPLICATE_API_TOKEN\<close> when the environment variable is
      not set\<close>
  "REPLICATE_API_TOKEN_default = py ''PLEASE_SET_YOUR_REPLICATE_API_TOKEN_ENVIRONMENT_VARIABLE''"

function digits :: "nat \<Rightarrow> pystr" where
  "digits n = (if n < 10 then [48 + n] else digits (n div 10) @ [48 + n mod 10])"
  by pat_completeness auto
termination
  by (relation "measure id") auto

declare digits.simps [simp del]

definition str_int :: "int \<Rightarrow> pystr" where
  \<comment> \<open>\<open>str(n)\<close>, as an f-string formats an int\<close>
  "str_int n = (if n < 0 then 45 # digits (nat (- n)) else digits (nat n))"

definition client_run :: "service \<Rightarrow> request \<Rightarrow> effect list \<Rightarrow> response \<times> effect list" where
  "client_run svc req tr = (svc (length (filter is_call tr)) req, tr @ [Call req])"

definition chunk_request :: "pystr \<Rightarrow> pystr \<Rightarrow> pystr \<Rightarrow> request" where
  "chunk_request chunk detail_level prompt_instruction =
     (let chunk_tokens = estimate_tokens chunk;
          target_output_tokens =
            min (py_int (float_mul (float_of_int chunk_tokens) lit_0_5)) 4000
      in \<lparr>model = GPT_NANO_MODEL,
          prompt = prompt_instruction
            @ py ''\<newline>        \<newline>        Text to summarize:\<newline>        ''
            @ chunk
            @ py ''\<newline>        \<newline>        Create a detailed summary that preserves the essence and important details of this section:'',
          system_prompt = py ''You are an expert summarizer specializing in creating ''
            @ detail_level
            @ py '' summaries. \<newline>        Your task is to process this text segment while preserving all important information, \<newline>        key arguments, supporting evidence, and relevant details. This is part of a multi-stage \<newline>        summarization process, so thoroughness is crucial.'',
          temperature = round53 (3 / 10),
          top_p = round53 (9 / 10),
          max_completion_tokens = target_output_tokens,
          presence_penalty = 0,
          frequency_penalty = round53 (1 / 10)\<rparr>)"

definition process_chunk ::
  "service \<Rightarrow> pystr \<Rightarrow> pystr \<Rightarrow> pystr \<Rightarrow> effect list \<Rightarrow> pystr \<times> effect list" where
  "process_chunk svc chunk detail_level prompt_instruction tr =
     (case client_run svc (chunk_request chunk detail_level prompt_instruction) tr of
        (Returns output, tr') \<Rightarrow> (concat output, tr')
      | (Raises e, tr') \<Rightarrow> (py ''Error processing chunk: '' @ e, tr'))"

definition synthesis_request :: "pystr list \<Rightarrow> int \<Rightarrow> pystr \<Rightarrow> pystr \<Rightarrow> request" where
  "synthesis_request chunk_summaries target_tokens detail_level prompt_instruction =
     (let combined_summaries =
            join (py ''\<newline>\<newline>=== SECTION ===\<newline>\<newline>'') chunk_summaries
      in \<lparr>model = GPT_NANO_MODEL,
          prompt = prompt_instruction
            @ py ''\<newline>        \<newline>        Below are detailed summaries of different sections of a document. Your task is to synthesize \<newline>        these into a single, cohesive, and comprehensive summary that:\<newline>        \<newline>        1. Maintains all key information and arguments\<newline>        2. Flows naturally as a unified document\<newline>        3. Eliminates redundancy while preserving important details\<newline>        4. Achieves approximately ''
            @ str_int (estimate_words_from_tokens target_tokens)
            @ py '' words\<newline>        \<newline>        Section Summaries:\<newline>        ''
            @ combined_summaries
            @ py ''\<newline>        \<newline>        Create a comprehensive final summary:'',
          system_prompt = py ''You are a master synthesizer capable of creating ''
            @ detail_level
            @ py '' summaries. \<newline>        Your task is to integrate multiple detailed section summaries into one cohesive, \<newline>        comprehensive final summary that flows naturally and maintains the depth of the original content.'',
          temperature = round53 (4 / 10),
          top_p = round53 (95 / 100),
          max_completion_tokens = min target_tokens 16000,
          presence_penalty = 0,
          frequency_penalty = round53 (1 / 10)\<rparr>)"

definition synthesize_final_summary ::
  "service \<Rightarrow> pystr list \<Rightarrow> int \<Rightarrow> pystr \<Rightarrow> pystr \<Rightarrow> effect list \<Rightarrow> pystr \<times> effect list" where
  "synthesize_final_summary svc chunk_summaries target_tokens detail_level prompt_instruction tr =
     (case client_run svc
             (synthesis_request chunk_summaries target_tokens detail_level prompt_instruction) tr of
        (Returns output, tr') \<Rightarrow> (concat output, tr')
      | (Raises e, tr') \<Rightarrow> (py ''Error in final synthesis: '' @ e, tr'))"

definition level_parameters :: "pystr \<Rightarrow> int \<times> pystr \<times> pystr" where
  \<comment> \<open>\<open>(target_words, detail_level, prompt_instruction)\<close> for a summary level\<close>
  "level_parameters summary_level =
     (if summary_level = py ''low'' then
        (5000, py ''extremely comprehensive and detailed'',
         py ''Provide an extremely comprehensive, detailed, and thorough summary. Include all key arguments, evidence, examples, data points, and nuances. Maintain the depth and richness of the original content.'')
      else if summary_level = py ''medium'' then
        (2500, py ''balanced and substantial'',
         py ''Provide a balanced, substantial summary that covers all main points, key arguments, and important details while maintaining readability and flow.'')
      else
        (800, py ''concise but complete'',
         py ''Provide a concise summary focusing on the most critical points, main arguments, and key takeaways while ensuring completeness.''))"

fun map_loop ::
  "service \<Rightarrow> pystr \<Rightarrow> pystr \<Rightarrow> nat \<Rightarrow> nat \<Rightarrow> pystr list \<Rightarrow> pystr list \<times> effect list
     \<Rightarrow> pystr list \<times> effect list" where
  \<comment> \<open>\<open>for i, chunk in enumerate(chunks)\<close>; \<open>n\<close> is \<open>len(chunks)\<close>, the state is
      \<open>chunk_summaries\<close> and the effects so far\<close>
  "map_loop svc detail_level prompt_instruction n i [] st = st"
| "map_loop svc detail_level prompt_instruction n i (chunk # rest) (chunk_summaries, tr) =
     (case process_chunk svc chunk detail_level prompt_instruction tr of
        (summary, tr') \<Rightarrow>
          let progress =
                20 + py_int (float_mul (int_truediv (int i + 1) (int n)) (float_of_int 60))
          in map_loop svc detail_level prompt_instruction n (Suc i) rest
               (chunk_summaries @ [summary], tr' @ [Progress progress]))"

definition run :: "service \<Rightarrow> pystr \<Rightarrow> pystr \<Rightarrow> pystr \<Rightarrow> effect list" where
  \<comment> \<open>\<open>ReplicateSummarizerWorker(text_to_summarize, summary_level, api_token).run()\<close>.
      Nothing inside the \<open>try\<close> block raises on these inputs (both calls of the service
      catch their own exceptions), so the handler of \<open>run\<close> has no branch here.\<close>
  "run svc text_to_summarize summary_level api_token =
     (if api_token = [] \<or> api_token = py ''YOUR_HARDCODED_REPLICATE_API_TOKEN_HERE''
      then [Error (py ''Error: Replicate API Token is not correctly set.'')]
      else
        (case level_parameters summary_level of
           (target_words, detail_level, prompt_instruction) \<Rightarrow>
             let target_tokens = py_int (float_mul (float_of_int target_words) lit_1_3);
                 tr0 = [Progress 10];
                 chunk_list = create_intelligent_chunks text_to_summarize;
                 tr1 = tr0 @ [Progress 20]
             in (case map_loop svc detail_level prompt_instruction (length chunk_list) 0
                        chunk_list ([], tr1) of
                   (chunk_summaries, tr2) \<Rightarrow>
                     let tr3 = tr2 @ [Progress 80]
                     in (case synthesize_final_summary svc chunk_summaries target_tokens
                                detail_level prompt_instruction tr3 of
                           (final_summary, tr4) \<Rightarrow>
                             tr4 @ [Progress 100, Finished final_summary]))))"

section \<open>Notions used in the properties\<close>

definition has_text :: "pystr \<Rightarrow> bool" where
  \<comment> \<open>the string has a character that is not whitespace\<close>
  "has_text s = (\<exists>c\<in>set s. \<not> isspace c)"

definition packer_ok :: "packer \<Rightarrow> bool" where
  \<comment> \<open>every chunk closed so far and every unit of the open chunk has text\<close>
  "packer_ok s = ((\<forall>c\<in>set (chunks s). has_text c) \<and> (\<forall>u\<in>set (current_chunk s). has_text u))"

section \<open>Properties of the worker\<close>

lemma default_token_not_rejected:
  "REPLICATE_API_TOKEN_default \<noteq> [] \<and>
   REPLICATE_API_TOKEN_default \<noteq> py ''YOUR_HARDCODED_REPLICATE_API_TOKEN_HERE''"
  by (simp add: REPLICATE_API_TOKEN_default_def py_def)

lemma run_accepted_ends_finished:
  assumes "api_token \<noteq> []" "api_token \<noteq> py ''YOUR_HARDCODED_REPLICATE_API_TOKEN_HERE''"
  shows "\<exists>tr final_summary.
           run svc txt summary_level api_token = tr @ [Progress 100, Finished final_summary]"
  using assms by (simp add: run_def Let_def split: prod.splits)

text \<open>
  Claim C6 (the code departs from it). The claim: a placeholder credential, in particular
  the default that config.py supplies when the environment variable is unset, makes the
  run fail at once with a configuration error and no progress. The guard of \<open>run\<close>
  compares the token with \<open>YOUR_HARDCODED_REPLICATE_API_TOKEN_HERE\<close>, while config.py
  supplies \<open>PLEASE_SET_YOUR_REPLICATE_API_TOKEN_ENVIRONMENT_VARIABLE\<close>. With that
  default, whatever the text, the level and the service do, the run is not stopped by the
  guard: it goes through all stages, emits progress 100 and ends with the
  \<open>finished\<close> signal.
\<close>

theorem default_placeholder_passes_the_guard:
  "\<exists>tr final_summary.
     run svc txt summary_level REPLICATE_API_TOKEN_default =
       tr @ [Progress 100, Finished final_summary]"
  using default_token_not_rejected by (intro run_accepted_ends_finished) simp_all

section \<open>Properties of the chunk planner\<close>

lemma strip_eq_Nil_iff: "strip s = [] \<longleftrightarrow> (\<forall>c\<in>set s. isspace c)"
proof
  assume "strip s = []"
  then have "dropWhile isspace (rev (dropWhile isspace s)) = []"
    by (simp add: strip_def)
  then have "\<forall>c\<in>set (dropWhile isspace s). isspace c"
    by simp
  moreover have "\<forall>c\<in>set (takeWhile isspace s). isspace c"
    by (auto dest: set_takeWhileD)
  moreover have "set s = set (takeWhile isspace s) \<union> set (dropWhile isspace s)"
    using takeWhile_dropWhile_id [of isspace s] set_append [of "takeWhile isspace s" "dropWhile isspace s"]
    by simp
  ultimately show "\<forall>c\<in>set s. isspace c" by blast
next
  assume "\<forall>c\<in>set s. isspace c"
  then have d: "dropWhile isspace s = []" by simp
  show "strip s = []" unfolding strip_def d by simp
qed

lemma strip_nonspace: "strip s \<noteq> [] \<Longrightarrow> \<exists>c\<in>set (strip s). \<not> isspace c"
proof -
  assume a: "strip s \<noteq> []"
  let ?d = "dropWhile isspace (rev (dropWhile isspace s))"
  have d: "?d \<noteq> []" using a by (simp add: strip_def)
  then have "\<not> isspace (hd ?d)" by (rule hd_dropWhile)
  moreover have "hd ?d \<in> set (strip s)" using d by (simp add: strip_def)
  ultimately show ?thesis by blast
qed

lemma stripped_nonempty_nonspace:
  "u \<in> set (stripped_nonempty pieces) \<Longrightarrow> \<exists>c\<in>set u. \<not> isspace c"
  by (auto simp: stripped_nonempty_def dest: strip_nonspace)

lemma stripped_nonempty_whitespace:
  "\<forall>p\<in>set pieces. \<forall>c\<in>set p. isspace c \<Longrightarrow> stripped_nonempty pieces = []"
  by (simp add: stripped_nonempty_def strip_eq_Nil_iff filter_empty_conv)

lemma blank_line_rest_subset: "blank_line_rest cs = Some rest \<Longrightarrow> set rest \<subseteq> set cs"
proof -
  assume a: "blank_line_rest cs = Some rest"
  let ?w = "takeWhile isspace cs"
  have r: "rest = rev (takeWhile (\<lambda>c. c \<noteq> newline) (rev ?w)) @ dropWhile isspace cs"
    using a by (simp add: blank_line_rest_def Let_def split: if_splits)
  have "set (takeWhile (\<lambda>c. c \<noteq> newline) (rev ?w)) \<subseteq> set ?w"
    using set_takeWhileD [of _ "\<lambda>c. c \<noteq> newline" "rev ?w"] by auto
  moreover have "set ?w \<subseteq> set cs" using set_takeWhileD [of _ isspace cs] by auto
  moreover have "set (dropWhile isspace cs) \<subseteq> set cs" using set_dropWhileD [of _ isspace cs] by auto
  ultimately show ?thesis using r by auto
qed

lemma split_blank_lines_subset:
  "p \<in> set (split_blank_lines acc cs) \<Longrightarrow> set p \<subseteq> set acc \<union> set cs"
proof (induction acc cs rule: split_blank_lines.induct)
  case (1 acc)
  then show ?case by simp
next
  case (2 acc c cs)
  show ?case
  proof (cases "c = newline")
    case False
    then have "p \<in> set (split_blank_lines (c # acc) cs)" using "2.prems" by simp
    then have "set p \<subseteq> set (c # acc) \<union> set cs" using "2.IH" False by blast
    then show ?thesis by auto
  next
    case True
    show ?thesis
    proof (cases "blank_line_rest cs")
      case None
      then have "p \<in> set (split_blank_lines (c # acc) cs)" using "2.prems" True by simp
      then have "set p \<subseteq> set (c # acc) \<union> set cs" using "2.IH" True None by blast
      then show ?thesis by auto
    next
      case (Some rest)
      then have "p = rev acc \<or> p \<in> set (split_blank_lines [] rest)"
        using "2.prems" True by simp
      moreover have "p \<in> set (split_blank_lines [] rest) \<Longrightarrow> set p \<subseteq> set rest"
        using "2.IH" True Some by fastforce
      ultimately show ?thesis using blank_line_rest_subset [OF Some] by auto
    qed
  qed
qed

lemma split_sentences_subset:
  "p \<in> set (split_sentences acc cs) \<Longrightarrow> set p \<subseteq> set acc \<union> set cs"
proof (induction acc cs rule: split_sentences.induct)
  case (1 acc)
  then show ?case by simp
next
  case (2 acc c cs)
  have d: "set (dropWhile is_terminator cs) \<subseteq> set cs"
    using set_dropWhileD [of _ is_terminator cs] by auto
  show ?case
  proof (cases "is_terminator c")
    case True
    then have "p = rev acc \<or> p \<in> set (split_sentences [] (dropWhile is_terminator cs))"
      using "2.prems" by simp
    moreover have "p \<in> set (split_sentences [] (dropWhile is_terminator cs)) \<Longrightarrow>
        set p \<subseteq> set (dropWhile is_terminator cs)"
      using "2.IH" True by fastforce
    ultimately show ?thesis using d by auto
  next
    case False
    then have "p \<in> set (split_sentences (c # acc) cs)" using "2.prems" by simp
    then have "set p \<subseteq> set (c # acc) \<union> set cs" using "2.IH" False by blast
    then show ?thesis by auto
  qed
qed

lemma semantic_units_nonspace:
  "u \<in> set (semantic_units txt) \<Longrightarrow> \<exists>c\<in>set u. \<not> isspace c"
  by (simp add: semantic_units_def Let_def stripped_nonempty_nonspace split: if_splits)

lemma pieces_whitespace_blank:
  assumes "\<forall>c\<in>set txt. isspace c"
  shows "\<forall>p\<in>set (split_blank_lines [] txt). \<forall>c\<in>set p. isspace c"
proof (intro ballI)
  fix p c assume "p \<in> set (split_blank_lines [] txt)" "c \<in> set p"
  then have "c \<in> set txt" using split_blank_lines_subset [of p "[]" "txt"] by auto
  then show "isspace c" using assms by blast
qed

lemma pieces_whitespace_sentences:
  assumes "\<forall>c\<in>set txt. isspace c"
  shows "\<forall>p\<in>set (split_sentences [] txt). \<forall>c\<in>set p. isspace c"
proof (intro ballI)
  fix p c assume "p \<in> set (split_sentences [] txt)" "c \<in> set p"
  then have "c \<in> set txt" using split_sentences_subset [of p "[]" "txt"] by auto
  then show "isspace c" using assms by blast
qed

lemma semantic_units_whitespace:
  assumes "\<forall>c\<in>set txt. isspace c"
  shows "semantic_units txt = []"
proof -
  have "stripped_nonempty (split_blank_lines [] txt) = []"
    using pieces_whitespace_blank [OF assms] by (rule stripped_nonempty_whitespace)
  moreover have "stripped_nonempty (split_sentences [] txt) = []"
    using pieces_whitespace_sentences [OF assms] by (rule stripped_nonempty_whitespace)
  ultimately show ?thesis by (simp add: semantic_units_def Let_def)
qed

lemma join_contains: "u \<in> set us \<Longrightarrow> set u \<subseteq> set (join sep us)"
proof (induction sep us rule: join.induct)
  case (1 sep)
  then show ?case by simp
next
  case (2 sep x)
  then show ?case by simp
next
  case (3 sep x y ys)
  show ?case
  proof (cases "u = x")
    case True
    then show ?thesis by simp
  next
    case False
    then have "u \<in> set (y # ys)" using "3.prems" by simp
    then have "set u \<subseteq> set (join sep (y # ys))" by (rule "3.IH")
    then show ?thesis by auto
  qed
qed

lemma join_has_text:
  assumes "us \<noteq> []" "\<forall>u\<in>set us. has_text u"
  shows "has_text (join sep us)"
proof -
  obtain u where u: "u \<in> set us" using assms(1) by (cases us) auto
  then have "has_text u" using assms(2) by blast
  then obtain c where c: "c \<in> set u" "\<not> isspace c" unfolding has_text_def by blast
  have "c \<in> set (join sep us)" using join_contains [OF u, of sep] c(1) by blast
  then show ?thesis unfolding has_text_def using c(2) by blast
qed

lemma pack_step_ok:
  assumes "packer_ok s" "has_text paragraph"
  shows "packer_ok (pack_step s paragraph)"
proof (cases "current_tokens s + estimate_tokens paragraph > max_chunk_tokens \<and> current_chunk s \<noteq> []")
  case True
  then have e: "pack_step s paragraph =
      \<lparr>chunks = chunks s @ [join (py ''\<newline>\<newline>'') (current_chunk s)],
       current_chunk = [paragraph], current_tokens = estimate_tokens paragraph\<rparr>"
    by (simp add: pack_step_def Let_def)
  have "has_text (join (py ''\<newline>\<newline>'') (current_chunk s))"
    using True assms(1) by (intro join_has_text) (simp_all add: packer_ok_def)
  then show ?thesis using assms unfolding e packer_ok_def by simp
next
  case False
  then have e: "pack_step s paragraph =
      \<lparr>chunks = chunks s, current_chunk = current_chunk s @ [paragraph],
       current_tokens = current_tokens s + estimate_tokens paragraph\<rparr>"
    by (simp add: pack_step_def Let_def)
  show ?thesis using assms unfolding e packer_ok_def by simp
qed

lemma pack_loop_ok:
  "packer_ok s \<Longrightarrow> \<forall>u\<in>set ps. has_text u \<Longrightarrow> packer_ok (pack_loop s ps)"
proof (induction ps arbitrary: s)
  case Nil
  then show ?case by simp
next
  case (Cons p ps)
  have "packer_ok (pack_step s p)" using Cons.prems by (intro pack_step_ok) simp_all
  then have "packer_ok (pack_loop (pack_step s p) ps)" using Cons.prems(2) by (intro Cons.IH) simp_all
  then show ?case by simp
qed

lemma flush_has_text:
  assumes "packer_ok s" "chunk \<in> set (flush s)"
  shows "has_text chunk"
proof (cases "current_chunk s = []")
  case True
  then show ?thesis using assms by (simp add: flush_def packer_ok_def)
next
  case False
  have j: "has_text (join (py ''\<newline>\<newline>'') (current_chunk s))"
    using False assms(1) by (intro join_has_text) (simp_all add: packer_ok_def)
  have "chunk \<in> set (chunks s) \<or> chunk = join (py ''\<newline>\<newline>'') (current_chunk s)"
    using assms(2) False by (simp add: flush_def) blast
  then show ?thesis using j assms(1) unfolding packer_ok_def by blast
qed

lemma chunks_have_text:
  assumes "chunk \<in> set (create_intelligent_chunks txt)"
  shows "has_text chunk"
proof -
  have 0: "packer_ok \<lparr>chunks = [], current_chunk = [], current_tokens = 0\<rparr>"
    by (simp add: packer_ok_def)
  have 1: "\<forall>u\<in>set (semantic_units txt). has_text u"
    using semantic_units_nonspace unfolding has_text_def by blast
  have "packer_ok (pack_loop \<lparr>chunks = [], current_chunk = [], current_tokens = 0\<rparr> (semantic_units txt))"
    using 0 1 by (rule pack_loop_ok)
  then show ?thesis using assms unfolding create_intelligent_chunks_def by (rule flush_has_text)
qed

lemma whitespace_no_chunks:
  assumes "\<forall>c\<in>set txt. isspace c"
  shows "create_intelligent_chunks txt = []"
  by (simp add: create_intelligent_chunks_def semantic_units_whitespace [OF assms] flush_def)

lemma chunks_of_a_b: "create_intelligent_chunks (py ''a b'') = [py ''a b'']"
  by (simp add: py_def create_intelligent_chunks_def semantic_units_def stripped_nonempty_def
        strip_def isspace_def whitespace_codepoints_def newline_def pack_step_def flush_def
        Let_def)

lemma blank_is_space: "\<forall>c\<in>set (py '' \<newline>  ''). isspace c"
  by (simp add: py_def isspace_def whitespace_codepoints_def)

text \<open>
  Claim C10. For every input string with no non-whitespace character, the empty string
  included, \<open>_create_intelligent_chunks\<close> returns the empty list (the model is a total
  function, so it returns without raising); and for every input it never returns a chunk
  that is empty or consists of whitespace only.
\<close>

theorem whitespace_input_gives_no_chunks:
  "((\<forall>c\<in>set txt. isspace c) \<longrightarrow> create_intelligent_chunks txt = []) \<and>
   (\<forall>chunk\<in>set (create_intelligent_chunks txt). chunk \<noteq> [] \<and> has_text chunk)"
proof (intro conjI impI ballI)
  assume "\<forall>c\<in>set txt. isspace c"
  then show "create_intelligent_chunks txt = []" by (rule whitespace_no_chunks)
next
  fix chunk assume a: "chunk \<in> set (create_intelligent_chunks txt)"
  then have "has_text chunk" by (rule chunks_have_text)
  then show "chunk \<noteq> []" by (auto simp: has_text_def)
next
  fix chunk assume a: "chunk \<in> set (create_intelligent_chunks txt)"
  then show "has_text chunk" by (rule chunks_have_text)
qed

theorem whitespace_input_gives_no_chunks_witness:
  "create_intelligent_chunks (py '' \<newline>  '') = [] \<and>
   create_intelligent_chunks (py ''a b'') = [py ''a b''] \<and>
   has_text (py ''a b'')"
proof -
  have 1: "create_intelligent_chunks (py '' \<newline>  '') = []"
    using whitespace_input_gives_no_chunks [of "py '' \<newline>  ''"] blank_is_space by blast
  have 2: "has_text (py ''a b'')"
    using whitespace_input_gives_no_chunks [of "py ''a b''"] chunks_of_a_b by simp
  show ?thesis using 1 2 chunks_of_a_b by simp
qed

end
